theory Spec2Isabelle
  imports Complex_Main
begin

section \<open>JavaScript values, errors and references\<close>

text \<open>
  The program is the widget module of \<^verbatim>\<open>src/docs/templates/custom.tpl\<close> (from line 88 on):
  the loader configuration, the layer views, the map view and the widget models. Scalar
  attribute values are JavaScript values; reading a key that an object does not have
  gives \<open>Undefined\<close>.
\<close>

datatype jsval = Undefined | Null | Str string | Num real

datatype js_error = TypeError | ReferenceError | ViewClassNotFound

type_synonym js_object = "string \<rightharpoonup> jsval"

definition js_get :: "js_object \<Rightarrow> string \<Rightarrow> jsval" where
  "js_get obj k = (case obj k of None \<Rightarrow> Undefined | Some v \<Rightarrow> v)"

text \<open>
  References to widget models, to views, to objects of the mapping library and to promises.
\<close>

type_synonym mid = nat
type_synonym vid = nat
type_synonym gid = nat
type_synonym pid = nat

section \<open>The loader singleton and \<open>reloadGoogleMaps\<close>\<close>

text \<open>
  \<open>GoogleMapsLoader\<close> is the process-wide loader object of the external mapping library.
  \<open>google\<close> tells whether the library handle is present, that is whether the global
  \<open>google\<close> is defined; \<open>callbacks\<close> are the callbacks given to \<open>load\<close> that still wait
  for the library; \<open>LIBRARIES\<close> and \<open>KEY\<close> are the two fields the program assigns. A
  callback given to \<open>load\<close> is one of the two arrow functions of the source, the one of
  \<open>HeatmapLayerBaseView.render\<close> (bound to its view) and the one of the \<open>displayed\<close>
  handler of \<open>PlainmapView.render\<close>, or the loader's own deferred release.
\<close>

datatype load_cb = HeatmapLoad vid | MapLoad | ReleaseCb

record loader =
  google :: bool
  callbacks :: "load_cb list"
  LIBRARIES :: "string list"
  KEY :: jsval

text \<open>
  The loader's \<open>release\<close>, of the external library (not part of the sources). A load is
  under way when the handle is absent and a callback waits. With no load under way the
  loader is reset at once: the handle and the global \<open>google\<close> are dropped, the key is set
  to null, the list of libraries is emptied. While a load is under way the reset is itself
  given to \<open>load\<close> and happens when the library has loaded.
\<close>

definition loading :: "loader \<Rightarrow> bool" where
  "loading L = (\<not> google L \<and> callbacks L \<noteq> [])"

definition release_now :: "loader \<Rightarrow> loader" where
  "release_now L = L\<lparr>KEY := Null, LIBRARIES := [], google := False, callbacks := []\<rparr>"

definition GoogleMapsLoader_release :: "loader \<Rightarrow> loader" where
  "GoogleMapsLoader_release L =
     (if loading L then L\<lparr>callbacks := callbacks L @ [ReleaseCb]\<rparr> else release_now L)"

text \<open>
  \<open>reloadGoogleMaps(configuration)\<close>, lines 93-100, with the loader's \<open>release\<close> method
  as the parameter \<open>release\<close>; the two assignments follow it. The program runs it with
  \<open>GoogleMapsLoader_release\<close>.
\<close>

definition reloadGoogleMaps :: "(loader \<Rightarrow> loader) \<Rightarrow> js_object \<Rightarrow> loader \<Rightarrow> loader" where
  "reloadGoogleMaps release configuration L =
     (let L1 = release L;
          L2 = L1\<lparr>LIBRARIES := [''visualization'']\<rparr>
      in if js_get configuration ''api_key'' \<noteq> Null \<and>
            js_get configuration ''api_key'' \<noteq> Undefined
         then L2\<lparr>KEY := js_get configuration ''api_key''\<rparr>
         else L2)"

section \<open>Coordinates and the routing request\<close>

text \<open>
  One element of a layer's \<open>data\<close> is a JavaScript array of numbers. Reading an index past
  its end gives undefined (\<open>None\<close>), so \<open>new google.maps.LatLng(lat, lng)\<close> records two
  optional numbers. The functions of this section build values of the mapping library;
  they are called where the library is present (the methods that call them check it).
\<close>

type_synonym coords = "real list"

datatype LatLng = LatLng "real option" "real option"

datatype LatLngBounds = LatLngBounds LatLng LatLng

definition js_index :: "'a list \<Rightarrow> nat \<Rightarrow> 'a option" where
  "js_index xs i = (if i < length xs then Some (xs ! i) else None)"

text \<open>The underscore functions used by the source: \<open>_.first\<close>, \<open>_.last\<close>, \<open>_.tail\<close>, \<open>_.initial\<close>.\<close>

definition first_u :: "'a list \<Rightarrow> 'a option" where
  "first_u array = js_index array 0"

definition last_u :: "'a list \<Rightarrow> 'a option" where
  "last_u array = (if array = [] then None else js_index array (length array - 1))"

definition tail_u :: "'a list \<Rightarrow> 'a list" where
  "tail_u array = drop 1 array"

definition initial_u :: "'a list \<Rightarrow> 'a list" where
  "initial_u array = take (length array - 1) array"

text \<open>
  \<open>const [lat, lng] = x\<close>: destructuring undefined throws a TypeError; destructuring an
  array reads its first two indices.
\<close>

definition destructure_pair :: "coords option \<Rightarrow> js_error + (real option \<times> real option)" where
  "destructure_pair x =
     (case x of
        None \<Rightarrow> Inl TypeError
      | Some e \<Rightarrow> Inr (js_index e 0, js_index e 1))"

definition to_LatLng :: "coords \<Rightarrow> LatLng" where
  "to_LatLng e = LatLng (js_index e 0) (js_index e 1)"

definition getOrigin :: "coords list \<Rightarrow> js_error + LatLng" where
  "getOrigin modelData =
     (case destructure_pair (first_u modelData) of
        Inl err \<Rightarrow> Inl err
      | Inr (lat, lng) \<Rightarrow> Inr (LatLng lat lng))"

definition getDestination :: "coords list \<Rightarrow> js_error + LatLng" where
  "getDestination modelData =
     (case destructure_pair (last_u modelData) of
        Inl err \<Rightarrow> Inl err
      | Inr (lat, lng) \<Rightarrow> Inr (LatLng lat lng))"

datatype waypoint = Waypoint (location: LatLng)

definition getWaypoints :: "coords list \<Rightarrow> waypoint list" where
  "getWaypoints modelData =
     (let withoutFirst = tail_u modelData;
          withoutLast = initial_u withoutFirst
      in map (\<lambda>e. Waypoint (LatLng (js_index e 0) (js_index e 1))) withoutLast)"

datatype travel_mode = DRIVING

record request =
  origin :: LatLng
  destination :: LatLng
  waypoints :: "waypoint list"
  travelMode :: travel_mode

text \<open>The \<open>request\<close> literal of \<open>DirectionsLayerView.render\<close>, lines 142-147, fields in order.\<close>

definition directions_request :: "coords list \<Rightarrow> js_error + request" where
  "directions_request modelData =
     (case getOrigin modelData of
        Inl err \<Rightarrow> Inl err
      | Inr org \<Rightarrow>
          (case getDestination modelData of
             Inl err \<Rightarrow> Inl err
           | Inr dst \<Rightarrow>
               Inr \<lparr>origin = org, destination = dst,
                    waypoints = getWaypoints modelData, travelMode = DRIVING\<rparr>))"

text \<open>The points a request names, from origin to destination.\<close>

definition request_points :: "request \<Rightarrow> LatLng list" where
  "request_points r = origin r # map location (waypoints r) @ [destination r]"

section \<open>Widget models\<close>

text \<open>
  A layer model holds the attributes the layer views read: \<open>_view_name\<close>, \<open>data\<close>,
  \<open>point_radius\<close>, \<open>max_intensity\<close> and \<open>layer_status\<close>. The map model holds
  \<open>width\<close>, \<open>height\<close>, \<open>data_bounds\<close> (\<open>None\<close> when the attribute is undefined),
  \<open>layers\<close> and \<open>configuration\<close>.
\<close>

record layer_model =
  layer_view_name :: string
  data :: "coords list"
  point_radius :: jsval
  max_intensity :: jsval
  layer_status :: jsval

record map_model =
  view_name :: string
  model_name :: string
  view_module :: string
  model_module :: string
  width :: jsval
  height :: jsval
  data_bounds :: "coords list option"
  layers :: "mid list"
  configuration :: js_object

text \<open>
  \<open>PlainmapModel.defaults\<close>, lines 333-341: the defaults of the framework's
  \<open>DOMWidgetModel\<close> (the parameter \<open>parent\<close>, not part of the sources) extended with six
  entries; \<open>_.extend\<close> lets the later object win.
\<close>

definition PlainmapModel_defaults :: "map_model \<Rightarrow> map_model" where
  "PlainmapModel_defaults parent =
     parent\<lparr>view_name := ''PlainmapView'',
            model_name := ''PlainmapModel'',
            view_module := ''jupyter-gmaps'',
            model_module := ''jupyter-gmaps'',
            width := Str ''600px'',
            height := Str ''400px''\<rparr>"

text \<open>
  Subscriptions made with \<open>model.on(event, handler, view)\<close>. The only handlers the source
  ever subscribes are \<open>updateRadius\<close> and \<open>updateMaxIntensity\<close> of a heatmap view, on a
  layer model, and \<open>updateBounds\<close> of the map view, on the map model.
\<close>

datatype layer_handler = UpdateRadius vid | UpdateMaxIntensity vid

datatype map_handler = UpdateBounds


section \<open>Views, external calls and the state of the page\<close>

datatype view_class = DirectionsLayerView | SimpleHeatmapLayerView | WeightedHeatmapLayerView

text \<open>The view classes the module exports for layers, by name.\<close>

definition exported_view :: "string \<Rightarrow> view_class option" where
  "exported_view name =
     (if name = ''DirectionsLayerView'' then Some DirectionsLayerView
      else if name = ''SimpleHeatmapLayerView'' then Some SimpleHeatmapLayerView
      else if name = ''WeightedHeatmapLayerView'' then Some WeightedHeatmapLayerView
      else None)"

text \<open>
  A layer view: its class, its model, and the fields the source assigns
  (\<open>this.directionsDisplay\<close>, \<open>this.response\<close>, \<open>this.heatmap\<close>), undefined until assigned.
  \<open>removed\<close> is the framework's teardown of the view; no code of the source reads it.
\<close>

record layer_view =
  cls :: view_class
  model :: mid
  directionsDisplay :: "gid option"
  response :: "gid option"
  heatmap :: "gid option"
  removed :: bool

text \<open>
  A promise of a layer view, as \<open>addLayerModel\<close> returns it: pending, pending with a
  removal waiting for it, fulfilled with the view, or rejected with an error.
\<close>

datatype promise = Pending | Doomed | Fulfilled vid | Rejected js_error

text \<open>
  Jobs the framework runs later: constructing and rendering the view a promise was asked
  for, the continuation \<open>addLayerModel\<close> gave to \<open>then\<close>, and the removal of a view.
\<close>

datatype task = CreateTask pid mid | ThenTask pid vid | RemoveTask vid

text \<open>The list synchronizer holds, for every model of its sequence, the promise of its view.\<close>

type_synonym view_list = "(mid \<times> pid) list"

text \<open>
  The map view: \<open>this.el.style\<close>, \<open>this.map\<close>, \<open>this.layerViews\<close> and the number of
  handlers subscribed to its \<open>displayed\<close> event.
\<close>

record map_view =
  el_style :: js_object
  gmap :: "gid option"
  layerViews :: "view_list option"
  displayed_handlers :: nat

datatype heat_point = Loc LatLng | WeightedLoc LatLng "real option"

text \<open>
  Calls that leave the program, in the order they are made: to the console, to the widget
  framework and to the mapping library. A call made by a layer view carries that view; a
  call on an object of the mapping library carries the object.
\<close>

datatype call =
    ConsoleLog string
  | Touch vid
  | NewDirectionsRenderer vid gid "gid option"
  | Route vid request
  | SetDirections vid gid nat
  | NewHeatmapLayer vid gid "heat_point list" jsval jsval
  | SetMap vid gid "gid option"
  | HeatmapSet vid gid string jsval
  | NewMap gid
  | FitBounds gid LatLngBounds
  | SetTimeout nat
  | CreateView vid mid
  | RemoveView vid

text \<open>
  The state of the page: the loader singleton, one map view with its model and the
  handlers subscribed to that model, the layer models with their subscribed handlers, the
  layer views, the promises, the queue of jobs that wait to run, the next unused
  reference, and the calls made so far. Models and views are reached by reference, as the
  objects of the source are.
\<close>

record world =
  GoogleMapsLoader :: loader
  mapModel :: map_model
  map_subs :: "map_handler list"
  mapView :: map_view
  models :: "mid \<Rightarrow> layer_model"
  layer_subs :: "mid \<Rightarrow> layer_handler list"
  views :: "vid \<Rightarrow> layer_view"
  promises :: "pid \<Rightarrow> promise"
  tasks :: "task list"
  fresh :: nat
  trace :: "call list"

text \<open>
  A method either returns or throws; the state it reached is kept in both cases, as an
  exception does not undo what ran before it.
\<close>

type_synonym 'a result = "(js_error + 'a) \<times> world"

definition log_call :: "call \<Rightarrow> world \<Rightarrow> world" where
  "log_call c w = w\<lparr>trace := trace w @ [c]\<rparr>"

definition new_ref :: "world \<Rightarrow> nat \<times> world" where
  "new_ref w = (fresh w, w\<lparr>fresh := Suc (fresh w)\<rparr>)"

definition upd_view :: "vid \<Rightarrow> (layer_view \<Rightarrow> layer_view) \<Rightarrow> world \<Rightarrow> world" where
  "upd_view v f w = w\<lparr>views := (views w)(v := f (views w v))\<rparr>"

definition upd_model :: "mid \<Rightarrow> (layer_model \<Rightarrow> layer_model) \<Rightarrow> world \<Rightarrow> world" where
  "upd_model m f w = w\<lparr>models := (models w)(m := f (models w m))\<rparr>"

definition settle :: "pid \<Rightarrow> promise \<Rightarrow> world \<Rightarrow> world" where
  "settle q p w = w\<lparr>promises := (promises w)(q := p)\<rparr>"

definition enqueue :: "task \<Rightarrow> world \<Rightarrow> world" where
  "enqueue t w = w\<lparr>tasks := tasks w @ [t]\<rparr>"

text \<open>
  Modelled from the spec: where the continuation of a decided promise stands among the
  jobs that wait. The order in which the widget framework runs its jobs is not part of the
  sources. After the spec's section 5 (the operations on the layers are serialized, so
  that the attachment of one layer is not interleaved with that of another), the
  continuation runs next, before the jobs that wait: the framework starts the creation of
  every view from a job of its own, and the continuation of a promise runs as soon as the
  job that decided the promise has ended.
\<close>

definition enqueue_next :: "task \<Rightarrow> world \<Rightarrow> world" where
  "enqueue_next t w = w\<lparr>tasks := t # tasks w\<rparr>"

text \<open>Running handlers one after the other; the first that throws ends the run.\<close>

fun run_seq :: "(world \<Rightarrow> unit result) list \<Rightarrow> world \<Rightarrow> unit result" where
  "run_seq [] w = (Inr (), w)"
| "run_seq (f # fs) w =
     (case f w of
        (Inl err, w') \<Rightarrow> (Inl err, w')
      | (Inr _, w') \<Rightarrow> run_seq fs w')"

text \<open>
  \<open>GoogleMapsLoader.load(fn)\<close>, of the external loader: \<open>fn\<close> runs at once when the
  library handle is present and is kept for later otherwise. \<open>tag\<close> names the callback
  that \<open>fn\<close> is.
\<close>

definition GoogleMapsLoader_load :: "load_cb \<Rightarrow> (world \<Rightarrow> unit result) \<Rightarrow> world \<Rightarrow> unit result" where
  "GoogleMapsLoader_load tag fn w =
     (if google (GoogleMapsLoader w) then fn w
      else (Inr (), w\<lparr>GoogleMapsLoader :=
              (GoogleMapsLoader w)\<lparr>callbacks := callbacks (GoogleMapsLoader w) @ [tag]\<rparr>\<rparr>))"

section \<open>DirectionsLayerView\<close>

text \<open>\<open>google.maps.DirectionsStatus.OK\<close>, a constant of the mapping library.\<close>

definition DirectionsStatus_OK :: string where
  "DirectionsStatus_OK = ''OK''"

text \<open>
  The callback given to \<open>directionsService.route\<close>, lines 151-161, for the view \<open>v\<close>;
  the routing service calls it with its response and its status. The comparison of line
  157 reads the global \<open>google\<close>, which throws a ReferenceError when the library handle has
  been released; the three statements before it have run by then.
\<close>

definition route_callback :: "vid \<Rightarrow> nat \<Rightarrow> string \<Rightarrow> world \<Rightarrow> unit result" where
  "route_callback v resp status w =
     (let w1 = log_call (ConsoleLog (''Direction service returned: '' @ status)) w;
          w2 = upd_model (model (views w1 v)) (\<lambda>m. m\<lparr>layer_status := Str status\<rparr>) w1;
          w3 = log_call (Touch v) w2
      in if \<not> google (GoogleMapsLoader w3) then (Inl ReferenceError, w3)
         else if status = DirectionsStatus_OK
         then (let w4 = upd_view v (\<lambda>x. x\<lparr>response := directionsDisplay x\<rparr>) w3
               in case directionsDisplay (views w4 v) of
                    None \<Rightarrow> (Inl TypeError, w4)
                  | Some g \<Rightarrow> (Inr (), log_call (SetDirections v g resp) w4))
         else (Inr (), w3))"

text \<open>
  \<open>DirectionsLayerView.render\<close>, lines 135-162. Line 138 reads the global \<open>google\<close> and
  throws a ReferenceError when the library handle is absent. Otherwise the renderer is
  constructed on the map view's map, the request is built from the model's data, and the
  routing service is asked; its callback runs when the service answers.
\<close>

definition directions_render :: "vid \<Rightarrow> world \<Rightarrow> unit result" where
  "directions_render v w =
     (if \<not> google (GoogleMapsLoader w) then (Inl ReferenceError, w)
      else
       (let (g, w1) = new_ref w;
            w2 = log_call (NewDirectionsRenderer v g (gmap (mapView w1))) w1;
            w3 = upd_view v (\<lambda>x. x\<lparr>directionsDisplay := Some g\<rparr>) w2
        in case directions_request (data (models w3 (model (views w3 v)))) of
             Inl err \<Rightarrow> (Inl err, w3)
           | Inr req \<Rightarrow> (Inr (), log_call (Route v req) w3)))"

definition directions_addToMapView :: "vid \<Rightarrow> world \<Rightarrow> unit result" where
  "directions_addToMapView v w = (Inr (), w)"

section \<open>HeatmapLayerBaseView and its two subclasses\<close>

definition SimpleHeatmap_getData :: "coords list \<Rightarrow> heat_point list" where
  "SimpleHeatmap_getData d = map (\<lambda>e. Loc (LatLng (js_index e 0) (js_index e 1))) d"

definition WeightedHeatmap_getData :: "coords list \<Rightarrow> heat_point list" where
  "WeightedHeatmap_getData d =
     map (\<lambda>e. WeightedLoc (LatLng (js_index e 0) (js_index e 1)) (js_index e 2)) d"

text \<open>\<open>this.getData()\<close>; the directions view has no such method.\<close>

definition view_getData :: "view_class \<Rightarrow> coords list \<Rightarrow> js_error + heat_point list" where
  "view_getData c d =
     (case c of
        SimpleHeatmapLayerView \<Rightarrow> Inr (SimpleHeatmap_getData d)
      | WeightedHeatmapLayerView \<Rightarrow> Inr (WeightedHeatmap_getData d)
      | DirectionsLayerView \<Rightarrow> Inl TypeError)"

text \<open>\<open>modelEvents\<close>, lines 204-207.\<close>

definition heatmap_modelEvents :: "vid \<Rightarrow> world \<Rightarrow> world" where
  "heatmap_modelEvents v w =
     (let m = model (views w v)
      in w\<lparr>layer_subs := (layer_subs w)
              (m := layer_subs w m @ [UpdateRadius v, UpdateMaxIntensity v])\<rparr>)"

text \<open>
  The callback given to \<open>GoogleMapsLoader.load\<close> by \<open>render\<close>, lines 191-197. The loader
  calls it with the library; \<open>getData\<close> reads the global \<open>google\<close>, which is defined
  whenever the loader has the library.
\<close>

definition heatmap_load_callback :: "vid \<Rightarrow> world \<Rightarrow> unit result" where
  "heatmap_load_callback v w =
     (let m = models w (model (views w v))
      in if \<not> google (GoogleMapsLoader w) then (Inl ReferenceError, w)
         else case view_getData (cls (views w v)) (data m) of
           Inl err \<Rightarrow> (Inl err, w)
         | Inr d \<Rightarrow>
             (let (g, w1) = new_ref w;
                  w2 = log_call (NewHeatmapLayer v g d (point_radius m) (max_intensity m)) w1
              in (Inr (), upd_view v (\<lambda>x. x\<lparr>heatmap := Some g\<rparr>) w2)))"

text \<open>\<open>HeatmapLayerBaseView.render\<close>, lines 189-198.\<close>

definition heatmap_render :: "vid \<Rightarrow> world \<Rightarrow> unit result" where
  "heatmap_render v w =
     GoogleMapsLoader_load (HeatmapLoad v) (heatmap_load_callback v) (heatmap_modelEvents v w)"

text \<open>\<open>addToMapView\<close>, lines 200-202: a method call on \<open>this.heatmap\<close>.\<close>

definition heatmap_addToMapView :: "vid \<Rightarrow> world \<Rightarrow> unit result" where
  "heatmap_addToMapView v w =
     (case heatmap (views w v) of
        None \<Rightarrow> (Inl TypeError, w)
      | Some g \<Rightarrow> (Inr (), log_call (SetMap v g (gmap (mapView w))) w))"






section \<open>Creating a child view\<close>

definition view_render :: "vid \<Rightarrow> world \<Rightarrow> unit result" where
  "view_render v w =
     (case cls (views w v) of
        DirectionsLayerView \<Rightarrow> directions_render v w
      | SimpleHeatmapLayerView \<Rightarrow> heatmap_render v w
      | WeightedHeatmapLayerView \<Rightarrow> heatmap_render v w)"

definition view_addToMapView :: "vid \<Rightarrow> world \<Rightarrow> unit result" where
  "view_addToMapView v w =
     (case cls (views w v) of
        DirectionsLayerView \<Rightarrow> directions_addToMapView v w
      | SimpleHeatmapLayerView \<Rightarrow> heatmap_addToMapView v w
      | WeightedHeatmapLayerView \<Rightarrow> heatmap_addToMapView v w)"

text \<open>
  \<open>create_child_view(childModel, {mapView: this})\<close>, of the widget framework: it returns a
  promise at once and queues the job that decides it. Nothing of the view exists when the
  call returns.
\<close>

definition create_child_view :: "mid \<Rightarrow> world \<Rightarrow> pid \<times> world" where
  "create_child_view childModel w =
     (let (q, w1) = new_ref w
      in (q, enqueue (CreateTask q childModel) (settle q Pending w1)))"

text \<open>
  The job queued by \<open>create_child_view\<close>: the view class named by the model's
  \<open>_view_name\<close> is constructed on the model and its \<open>render\<close> is called. The job fails when
  the class is not found or \<open>render\<close> throws.
\<close>

definition create_view_job :: "mid \<Rightarrow> world \<Rightarrow> vid result" where
  "create_view_job childModel w =
     (case exported_view (layer_view_name (models w childModel)) of
        None \<Rightarrow> (Inl ViewClassNotFound, w)
      | Some c \<Rightarrow>
          (let (v, w1) = new_ref w;
               w2 = w1\<lparr>views := (views w1)
                      (v := \<lparr>cls = c, model = childModel, directionsDisplay = None,
                             response = None, heatmap = None, removed = False\<rparr>)\<rparr>;
               w3 = log_call (CreateView v childModel) w2
           in case view_render v w3 of
                (Inl err, w4) \<Rightarrow> (Inl err, w4)
              | (Inr _, w4) \<Rightarrow> (Inr v, w4)))"

text \<open>
  \<open>PlainmapView.addLayerModel\<close>, lines 284-291: the promise of \<open>create_child_view\<close> with
  a continuation given to \<open>then\<close>. One reference stands for the chain: it is fulfilled
  when the continuation has returned. The continuation is \<open>addLayerModel_then\<close>; it is the
  only one the program ever gives to such a promise.
\<close>

definition addLayerModel :: "mid \<Rightarrow> world \<Rightarrow> pid \<times> world" where
  "addLayerModel childModel w = create_child_view childModel w"

definition addLayerModel_then :: "vid \<Rightarrow> world \<Rightarrow> vid result" where
  "addLayerModel_then childView w =
     (case view_addToMapView childView w of
        (Inl err, w1) \<Rightarrow> (Inl err, w1)
      | (Inr _, w1) \<Rightarrow> (Inr childView, w1))"

text \<open>Destroying a view is the framework's teardown: recorded in the view and as a call.\<close>

definition destroy_view :: "vid \<Rightarrow> world \<Rightarrow> world" where
  "destroy_view v w = log_call (RemoveView v) (upd_view v (\<lambda>x. x\<lparr>removed := True\<rparr>) w)"

text \<open>
  Running one job. An exception inside a job of a promise rejects the promise and goes no
  further. When the job of \<open>create_child_view\<close> has succeeded, the continuation given
  to \<open>then\<close> is the next job to run (\<open>enqueue_next\<close>). When the continuation has
  returned, the promise is fulfilled, and a removal that waited for it is carried out.
\<close>

definition run_task :: "task \<Rightarrow> world \<Rightarrow> world" where
  "run_task t w =
     (case t of
        CreateTask q m \<Rightarrow>
          (case create_view_job m w of
             (Inl err, w1) \<Rightarrow> settle q (Rejected err) w1
           | (Inr v, w1) \<Rightarrow> enqueue_next (ThenTask q v) w1)
      | ThenTask q v \<Rightarrow>
          (case addLayerModel_then v w of
             (Inl err, w1) \<Rightarrow> settle q (Rejected err) w1
           | (Inr v', w1) \<Rightarrow>
               (if promises w1 q = Doomed then destroy_view v' (settle q (Fulfilled v') w1)
                else settle q (Fulfilled v') w1))
      | RemoveTask v \<Rightarrow> destroy_view v w)"

definition run_next :: "world \<Rightarrow> world" where
  "run_next w =
     (case tasks w of
        [] \<Rightarrow> w
      | t # ts \<Rightarrow> run_task t (w\<lparr>tasks := ts\<rparr>))"

fun run_tasks :: "nat \<Rightarrow> world \<Rightarrow> world" where
  "run_tasks 0 w = w"
| "run_tasks (Suc n) w = run_tasks n (run_next w)"

section \<open>The layer list synchronizer\<close>

text \<open>
  Modelled from the spec: \<open>widgets.ViewList\<close> (its constructor and its \<open>update\<close>) belongs
  to the widget framework and is not part of the sources; only its construction on
  \<open>addLayerModel\<close> with no remove handler (line 254) and the call of \<open>update\<close> (line 262)
  are. After the spec's section 4.4, the delta is the smallest that keeps the relative
  order of the layers: the views of the longest common beginning of the old and the new
  sequence are kept, the views behind it are removed, and views for the rest of the new
  sequence are asked of the add handler, in the order of the sequence.
\<close>

fun common_prefix :: "'a list \<Rightarrow> 'a list \<Rightarrow> nat" where
  "common_prefix (x # xs) (y # ys) = (if x = y then Suc (common_prefix xs ys) else 0)"
| "common_prefix xs ys = 0"

text \<open>
  Modelled from the spec: the removal of one entry of the synchronizer (not part of the
  sources). The removal of a fulfilled entry is queued; a pending entry is marked and its
  view is removed when the promise is fulfilled; a rejected entry has no view.
\<close>

definition remove_entry :: "mid \<times> pid \<Rightarrow> world \<Rightarrow> world" where
  "remove_entry entry w =
     (case promises w (snd entry) of
        Fulfilled v \<Rightarrow> enqueue (RemoveTask v) w
      | Pending \<Rightarrow> settle (snd entry) Doomed w
      | Doomed \<Rightarrow> w
      | Rejected err \<Rightarrow> w)"

text \<open>
  Modelled from the spec: the add pass of the synchronizer's \<open>update\<close> (not part of the
  sources). The add handler \<open>addLayerModel\<close> is called for the models in order, and the
  promises it returns are the new entries.
\<close>

fun add_views :: "mid list \<Rightarrow> world \<Rightarrow> view_list \<times> world" where
  "add_views [] w = ([], w)"
| "add_views (m # ms) w =
     (case addLayerModel m w of
        (q, w1) \<Rightarrow> (case add_views ms w1 of (entries, w2) \<Rightarrow> ((m, q) # entries, w2)))"

text \<open>
  Modelled from the spec: \<open>update\<close> of the synchronizer (not part of the sources), called
  on \<open>this.layerViews\<close>; it throws while the map view has no synchronizer.
\<close>

definition ViewList_update :: "mid list \<Rightarrow> world \<Rightarrow> unit result" where
  "ViewList_update new_models w =
     (case layerViews (mapView w) of
        None \<Rightarrow> (Inl TypeError, w)
      | Some entries \<Rightarrow>
          (let p = common_prefix (map fst entries) new_models;
               w1 = fold remove_entry (drop p entries) w;
               (added, w2) = add_views (drop p new_models) w1
           in (Inr (), w2\<lparr>mapView := (mapView w2)
                             \<lparr>layerViews := Some (take p entries @ added)\<rparr>\<rparr>)))"

section \<open>PlainmapView\<close>

text \<open>\<open>ConfigurationMixin.loadConfiguration\<close>, lines 117-120.\<close>

definition loadConfiguration :: "(loader \<Rightarrow> loader) \<Rightarrow> world \<Rightarrow> world" where
  "loadConfiguration release w =
     (let modelConfiguration = configuration (mapModel w)
      in w\<lparr>GoogleMapsLoader := reloadGoogleMaps release modelConfiguration (GoogleMapsLoader w)\<rparr>)"

text \<open>\<open>modelEvents\<close>, lines 272-274.\<close>

definition PlainmapView_modelEvents :: "world \<Rightarrow> world" where
  "PlainmapView_modelEvents w = w\<lparr>map_subs := map_subs w @ [UpdateBounds]\<rparr>"

text \<open>
  \<open>updateBounds\<close>, lines 276-282. The nested destructuring throws on an undefined
  attribute and on a missing corner; lines 278-280 read the global \<open>google\<close> and throw a
  ReferenceError when the library handle is absent; \<open>this.map.fitBounds\<close> throws while
  there is no map.
\<close>

definition updateBounds :: "world \<Rightarrow> unit result" where
  "updateBounds w =
     (case data_bounds (mapModel w) of
        None \<Rightarrow> (Inl TypeError, w)
      | Some b \<Rightarrow>
          (case destructure_pair (js_index b 0) of
             Inl err \<Rightarrow> (Inl err, w)
           | Inr (latBL, lngBL) \<Rightarrow>
               (case destructure_pair (js_index b 1) of
                  Inl err \<Rightarrow> (Inl err, w)
                | Inr (latTR, lngTR) \<Rightarrow>
                    (if \<not> google (GoogleMapsLoader w) then (Inl ReferenceError, w)
                     else
                      (let boundBL = LatLng latBL lngBL;
                           boundTR = LatLng latTR lngTR;
                           bounds = LatLngBounds boundBL boundTR
                       in case gmap (mapView w) of
                            None \<Rightarrow> (Inl TypeError, w)
                          | Some g \<Rightarrow> (Inr (), log_call (FitBounds g bounds) w))))))"

text \<open>
  \<open>PlainmapView.render\<close>, lines 247-270, up to the subscription of the \<open>displayed\<close>
  handler. \<open>initialBounds\<close> is read here and later passed to \<open>updateBounds\<close>, which takes
  no argument, so it has no effect.
\<close>

definition PlainmapView_render :: "(loader \<Rightarrow> loader) \<Rightarrow> world \<Rightarrow> world" where
  "PlainmapView_render release w =
     (let w1 = loadConfiguration release w;
          w2 = w1\<lparr>mapView := (mapView w1)
                 \<lparr>el_style := (el_style (mapView w1))(''width'' \<mapsto> width (mapModel w1))\<rparr>\<rparr>;
          w3 = w2\<lparr>mapView := (mapView w2)
                 \<lparr>el_style := (el_style (mapView w2))(''height'' \<mapsto> height (mapModel w2))\<rparr>\<rparr>;
          w4 = w3\<lparr>mapView := (mapView w3)\<lparr>layerViews := Some []\<rparr>\<rparr>;
          w5 = PlainmapView_modelEvents w4
      in w5\<lparr>mapView := (mapView w5)
             \<lparr>displayed_handlers := Suc (displayed_handlers (mapView w5))\<rparr>\<rparr>)"

text \<open>
  The callback the \<open>displayed\<close> handler gives to \<open>GoogleMapsLoader.load\<close>, lines 258-268:
  \<open>update\<close> only queues the creation of the layer views, so the timer is set before any of
  them exists. The timer's own callback only asks the map to redraw.
\<close>

definition map_load_callback :: "world \<Rightarrow> unit result" where
  "map_load_callback w =
     (let (g, w1) = new_ref w;
          w2 = log_call (NewMap g) w1;
          w3 = w2\<lparr>mapView := (mapView w2)\<lparr>gmap := Some g\<rparr>\<rparr>
      in case updateBounds w3 of
           (Inl err, w4) \<Rightarrow> (Inl err, w4)
         | (Inr _, w4) \<Rightarrow>
             (case ViewList_update (layers (mapModel w4)) w4 of
                (Inl err, w5) \<Rightarrow> (Inl err, w5)
              | (Inr _, w5) \<Rightarrow> (Inr (), log_call (SetTimeout 1000) w5)))"

text \<open>The \<open>displayed\<close> event of the map view: every subscribed handler asks the loader.\<close>

definition displayed :: "world \<Rightarrow> unit result" where
  "displayed w =
     run_seq (replicate (displayed_handlers (mapView w))
                (GoogleMapsLoader_load MapLoad map_load_callback)) w"

text \<open>
  The library has loaded: the handle is present from now on and the callbacks that waited
  for it run in the order they were given. A deferred release resets the loader, the
  callbacks behind it included; otherwise the list of callbacks is emptied at the end.
\<close>

fun run_callbacks :: "load_cb list \<Rightarrow> world \<Rightarrow> unit result" where
  "run_callbacks [] w =
     (Inr (), w\<lparr>GoogleMapsLoader := (GoogleMapsLoader w)\<lparr>callbacks := []\<rparr>\<rparr>)"
| "run_callbacks (HeatmapLoad v # cbs) w =
     (case heatmap_load_callback v w of
        (Inl err, w') \<Rightarrow> (Inl err, w')
      | (Inr _, w') \<Rightarrow> run_callbacks cbs w')"
| "run_callbacks (MapLoad # cbs) w =
     (case map_load_callback w of
        (Inl err, w') \<Rightarrow> (Inl err, w')
      | (Inr _, w') \<Rightarrow> run_callbacks cbs w')"
| "run_callbacks (ReleaseCb # cbs) w =
     (Inr (), w\<lparr>GoogleMapsLoader := release_now (GoogleMapsLoader w)\<rparr>)"

definition library_loaded :: "world \<Rightarrow> unit result" where
  "library_loaded w =
     run_callbacks (callbacks (GoogleMapsLoader w))
       (w\<lparr>GoogleMapsLoader := (GoogleMapsLoader w)\<lparr>google := True\<rparr>\<rparr>)"


section \<open>Reading the calls\<close>


text \<open>The calls made on the way from the state \<open>w\<close> to the later state \<open>w'\<close>.\<close>

definition new_calls :: "world \<Rightarrow> world \<Rightarrow> call list" where
  "new_calls w w' = drop (length (trace w)) (trace w')"

text \<open>
  A call attaches a layer's primitive to the map surface when it constructs a directions
  renderer on a map or puts a heatmap layer on a map; it is made by the layer's view.
\<close>

fun attach_view :: "call \<Rightarrow> vid option" where
  "attach_view (SetMap v g (Some mp)) = Some v"
| "attach_view (NewDirectionsRenderer v g (Some mp)) = Some v"
| "attach_view c = None"

text \<open>The call a subscribed handler makes on its view's heatmap primitive in the state \<open>w\<close>.\<close>

definition handler_call :: "world \<Rightarrow> layer_handler \<Rightarrow> call" where
  "handler_call w h =
     (case h of
        UpdateRadius v \<Rightarrow> HeatmapSet v (the (heatmap (views w v))) ''radius''
                           (point_radius (models w (model (views w v))))
      | UpdateMaxIntensity v \<Rightarrow> HeatmapSet v (the (heatmap (views w v))) ''maxIntensity''
                           (max_intensity (models w (model (views w v)))))"

text \<open>The layers (models) whose primitives the calls \<open>cs\<close> attach, in the order of the calls.\<close>

definition attached_layers :: "world \<Rightarrow> call list \<Rightarrow> mid list" where
  "attached_layers w cs = map (\<lambda>v. model (views w v)) (List.map_filter attach_view cs)"









section \<open>An example page\<close>

text \<open>
  A map model with the three layers heatmap, directions, heatmap (the models 1, 2 and 3),
  before its view is rendered; the library is not loaded yet.
\<close>

definition example_models :: "mid \<Rightarrow> layer_model" where
  "example_models =
     (\<lambda>m. \<lparr>layer_view_name = ''GMapsLayerView'', data = [], point_radius = Null,
            max_intensity = Null, layer_status = Undefined\<rparr>)
     (1 := \<lparr>layer_view_name = ''SimpleHeatmapLayerView'', data = [[51.5, -0.1]],
            point_radius = Num 5, max_intensity = Null, layer_status = Undefined\<rparr>,
      2 := \<lparr>layer_view_name = ''DirectionsLayerView'',
            data = [[51.5, -0.1], [51.6, 0], [51.7, 0.1]],
            point_radius = Null, max_intensity = Null, layer_status = Undefined\<rparr>,
      3 := \<lparr>layer_view_name = ''WeightedHeatmapLayerView'', data = [[51.6, 0.1, 2]],
            point_radius = Null, max_intensity = Num 8, layer_status = Undefined\<rparr>)"

definition example_page :: world where
  "example_page =
     \<lparr>GoogleMapsLoader = \<lparr>google = False, callbacks = [], LIBRARIES = [], KEY = Null\<rparr>,
      mapModel = \<lparr>view_name = ''PlainmapView'', model_name = ''PlainmapModel'',
                  view_module = ''jupyter-gmaps'', model_module = ''jupyter-gmaps'',
                  width = Str ''600px'', height = Str ''400px'',
                  data_bounds = Some [[51.4, -0.2], [51.7, 0.2]],
                  layers = [1, 2, 3], configuration = Map.empty\<rparr>,
      map_subs = [],
      mapView = \<lparr>el_style = Map.empty, gmap = None, layerViews = None,
                 displayed_handlers = 0\<rparr>,
      models = example_models,
      layer_subs = (\<lambda>m. []),
      views = (\<lambda>v. \<lparr>cls = DirectionsLayerView, model = 0, directionsDisplay = None,
                     response = None, heatmap = None, removed = False\<rparr>),
      promises = (\<lambda>q. Pending),
      tasks = [],
      fresh = 10,
      trace = []\<rparr>"

text \<open>The page after the map view was rendered.\<close>

definition rendered_page :: world where
  "rendered_page = PlainmapView_render GoogleMapsLoader_release example_page"

text \<open>The page after the map view was displayed, while the library still loads.\<close>

definition pending_page :: world where
  "pending_page = snd (displayed rendered_page)"

text \<open>
  The page after the library has loaded: the map (10) exists, the viewport is fitted, and
  the creation of the three layer views is queued (the promises 11, 12 and 13).
\<close>

definition loaded_page :: world where
  "loaded_page = snd (library_loaded pending_page)"

text \<open>
  The page after the jobs have run, the creation of each view followed by its
  continuation: the layer views 14, 16 and 18 exist and are on the map.
\<close>

definition shown_page :: world where
  "shown_page = run_tasks 6 loaded_page"

text \<open>
  The loaded page after the configuration was loaded once more, as the \<open>render\<close> of a map
  view does first, before the queued jobs have run; and that page after the jobs have run.
\<close>

definition released_page :: world where
  "released_page = loadConfiguration GoogleMapsLoader_release loaded_page"

definition failed_page :: world where
  "failed_page = run_tasks 6 released_page"

text \<open>
  The shown page after the directions layer (model 2) has left the sequence and the
  synchronizer has removed its view (view 16); the routing request of that view is still
  under way.
\<close>

definition torn_page :: world where
  "torn_page = run_tasks 4 (snd (ViewList_update [1, 3] shown_page))"

section \<open>The states of the example page\<close>

text \<open>
  The states of the example page, written out once; the examples below start from them.
\<close>

lemma run_tasks_numeral:
  "run_tasks (numeral k) w = run_tasks (pred_numeral k) (run_next w)"
  by (simp add: numeral_eq_Suc)

lemmas run_defs =
  rendered_page_def pending_page_def loaded_page_def
  example_page_def example_models_def
  PlainmapView_render_def loadConfiguration_def reloadGoogleMaps_def js_get_def
  GoogleMapsLoader_release_def release_now_def loading_def
  PlainmapView_modelEvents_def displayed_def GoogleMapsLoader_load_def
  library_loaded_def map_load_callback_def new_ref_def log_call_def
  updateBounds_def destructure_pair_def js_index_def ViewList_update_def
  addLayerModel_def create_child_view_def settle_def enqueue_def
  Let_def

lemma loaded_page_eq:
  "loaded_page =
     example_page
      \<lparr>GoogleMapsLoader :=
         \<lparr>google = True, callbacks = [], LIBRARIES = [''visualization''], KEY = Null\<rparr>,
       map_subs := [UpdateBounds],
       mapView :=
         \<lparr>el_style = [''width'' \<mapsto> Str ''600px'', ''height'' \<mapsto> Str ''400px''],
          gmap = Some 10,
          layerViews = Some [(1, 11), (2, 12), (3, 13)],
          displayed_handlers = 1\<rparr>,
       promises := (\<lambda>q. Pending),
       tasks := [CreateTask 11 1, CreateTask 12 2, CreateTask 13 3],
       fresh := 14,
       trace :=
         [NewMap 10,
          FitBounds 10 (LatLngBounds (LatLng (Some 51.4) (Some (- 0.2)))
                                     (LatLng (Some 51.7) (Some 0.2))),
          SetTimeout 1000]\<rparr>"
  by (simp add: run_defs fun_upd_idem)

lemmas step_defs =
  example_page_def example_models_def
  run_next_def run_task_def create_view_job_def addLayerModel_then_def destroy_view_def
  settle_def enqueue_def enqueue_next_def new_ref_def log_call_def js_index_def
  exported_view_def view_render_def
  heatmap_render_def heatmap_modelEvents_def heatmap_load_callback_def view_getData_def
  SimpleHeatmap_getData_def WeightedHeatmap_getData_def upd_view_def upd_model_def
  view_addToMapView_def heatmap_addToMapView_def directions_addToMapView_def
  GoogleMapsLoader_load_def
  directions_render_def directions_request_def getOrigin_def getDestination_def
  getWaypoints_def first_u_def last_u_def tail_u_def initial_u_def destructure_pair_def
  to_LatLng_def
  run_tasks_numeral Let_def

lemma shown_page_eq:
  "shown_page =
     example_page
      \<lparr>GoogleMapsLoader :=
         \<lparr>google = True, callbacks = [], LIBRARIES = [''visualization''], KEY = Null\<rparr>,
       map_subs := [UpdateBounds],
       mapView :=
         \<lparr>el_style = [''width'' \<mapsto> Str ''600px'', ''height'' \<mapsto> Str ''400px''],
          gmap = Some 10,
          layerViews = Some [(1, 11), (2, 12), (3, 13)],
          displayed_handlers = 1\<rparr>,
       layer_subs :=
         (\<lambda>m. [])
         (1 := [UpdateRadius 14, UpdateMaxIntensity 14],
          3 := [UpdateRadius 18, UpdateMaxIntensity 18]),
       views :=
         (views example_page)
         (14 := \<lparr>cls = SimpleHeatmapLayerView, model = 1, directionsDisplay = None,
                 response = None, heatmap = Some 15, removed = False\<rparr>,
          16 := \<lparr>cls = DirectionsLayerView, model = 2, directionsDisplay = Some 17,
                 response = None, heatmap = None, removed = False\<rparr>,
          18 := \<lparr>cls = WeightedHeatmapLayerView, model = 3, directionsDisplay = None,
                 response = None, heatmap = Some 19, removed = False\<rparr>),
       promises := (\<lambda>q. Pending)(11 := Fulfilled 14, 12 := Fulfilled 16, 13 := Fulfilled 18),
       tasks := [],
       fresh := 20,
       trace :=
         [NewMap 10,
          FitBounds 10 (LatLngBounds (LatLng (Some 51.4) (Some (- 0.2)))
                                     (LatLng (Some 51.7) (Some 0.2))),
          SetTimeout 1000,
          CreateView 14 1,
          NewHeatmapLayer 14 15 [Loc (LatLng (Some 51.5) (Some (- 0.1)))] (Num 5) Null,
          SetMap 14 15 (Some 10),
          CreateView 16 2,
          NewDirectionsRenderer 16 17 (Some 10),
          Route 16 \<lparr>origin = LatLng (Some 51.5) (Some (- 0.1)),
                     destination = LatLng (Some 51.7) (Some 0.1),
                     waypoints = [Waypoint (LatLng (Some 51.6) (Some 0))],
                     travelMode = DRIVING\<rparr>,
          CreateView 18 3,
          NewHeatmapLayer 18 19 [WeightedLoc (LatLng (Some 51.6) (Some 0.1)) (Some 2)]
            Null (Num 8),
          SetMap 18 19 (Some 10)]\<rparr>"
  by (simp add: shown_page_def loaded_page_eq step_defs)


lemma torn_page_eq:
  "torn_page =
     shown_page
      \<lparr>mapView := (mapView shown_page)\<lparr>layerViews := Some [(1, 11), (3, 20)]\<rparr>,
       layer_subs := (layer_subs shown_page)
         (3 := [UpdateRadius 18, UpdateMaxIntensity 18, UpdateRadius 21, UpdateMaxIntensity 21]),
       views := (views shown_page)
         (16 := (views shown_page 16)\<lparr>removed := True\<rparr>,
          18 := (views shown_page 18)\<lparr>removed := True\<rparr>,
          21 := \<lparr>cls = WeightedHeatmapLayerView, model = 3, directionsDisplay = None,
                 response = None, heatmap = Some 22, removed = False\<rparr>),
       promises := (promises shown_page)(20 := Fulfilled 21),
       fresh := 23,
       trace := trace shown_page @
         [RemoveView 16, RemoveView 18, CreateView 21 3,
          NewHeatmapLayer 21 22 [WeightedLoc (LatLng (Some 51.6) (Some 0.1)) (Some 2)]
            Null (Num 8),
          SetMap 21 22 (Some 10)]\<rparr>"
  by (simp add: torn_page_def shown_page_eq step_defs ViewList_update_def remove_entry_def
      addLayerModel_def create_child_view_def fun_upd_twist)

lemma released_page_eq:
  "released_page =
     loaded_page
      \<lparr>GoogleMapsLoader :=
         \<lparr>google = False, callbacks = [], LIBRARIES = [''visualization''], KEY = Null\<rparr>\<rparr>"
  by (simp add: released_page_def loaded_page_eq loadConfiguration_def reloadGoogleMaps_def
      GoogleMapsLoader_release_def release_now_def loading_def js_get_def example_page_def
      Let_def)

lemma stalled_page_eq:
  "run_tasks 1 released_page =
     loaded_page
      \<lparr>GoogleMapsLoader :=
         \<lparr>google = False, callbacks = [HeatmapLoad 14],
          LIBRARIES = [''visualization''], KEY = Null\<rparr>,
       layer_subs := (\<lambda>m. [])(1 := [UpdateRadius 14, UpdateMaxIntensity 14]),
       views :=
         (views example_page)
         (14 := \<lparr>cls = SimpleHeatmapLayerView, model = 1, directionsDisplay = None,
                 response = None, heatmap = None, removed = False\<rparr>),
       tasks := [ThenTask 11 14, CreateTask 12 2, CreateTask 13 3],
       fresh := 15,
       trace := trace loaded_page @ [CreateView 14 1]\<rparr>"
  by (simp add: released_page_eq loaded_page_eq step_defs)

lemma failed_page_eq:
  "failed_page =
     loaded_page
      \<lparr>GoogleMapsLoader :=
         \<lparr>google = False, callbacks = [HeatmapLoad 14, HeatmapLoad 16],
          LIBRARIES = [''visualization''], KEY = Null\<rparr>,
       layer_subs :=
         (\<lambda>m. [])
         (1 := [UpdateRadius 14, UpdateMaxIntensity 14],
          3 := [UpdateRadius 16, UpdateMaxIntensity 16]),
       views :=
         (views example_page)
         (14 := \<lparr>cls = SimpleHeatmapLayerView, model = 1, directionsDisplay = None,
                 response = None, heatmap = None, removed = False\<rparr>,
          15 := \<lparr>cls = DirectionsLayerView, model = 2, directionsDisplay = None,
                 response = None, heatmap = None, removed = False\<rparr>,
          16 := \<lparr>cls = WeightedHeatmapLayerView, model = 3, directionsDisplay = None,
                 response = None, heatmap = None, removed = False\<rparr>),
       promises := (\<lambda>q. Pending)
         (11 := Rejected TypeError, 12 := Rejected ReferenceError, 13 := Rejected TypeError),
       tasks := [],
       fresh := 17,
       trace := trace loaded_page @ [CreateView 14 1, CreateView 15 2, CreateView 16 3]\<rparr>"
  by (simp add: failed_page_def released_page_eq loaded_page_eq step_defs)

section \<open>The configure operation\<close>

text \<open>
  C7 (as amended): after every call of \<open>reloadGoogleMaps\<close> the library handle is absent
  and \<open>LIBRARIES\<close> is exactly \<open>["visualization"]\<close>. \<open>KEY\<close> is the configuration's
  \<open>api_key\<close> exactly when that entry is neither null nor undefined. With the entry absent
  (or null) the key is the one \<open>release\<close> leaves: null when no load is under way, since
  \<open>release\<close> resets the key, and the key before the call only while a load is under way,
  when the reset is put off until the library has loaded.
\<close>

theorem reloadGoogleMaps_configures:
  "LIBRARIES (reloadGoogleMaps GoogleMapsLoader_release cfg L) = [''visualization''] \<and>
   google (reloadGoogleMaps GoogleMapsLoader_release cfg L) = False \<and>
   callbacks (reloadGoogleMaps GoogleMapsLoader_release cfg L) =
     (if loading L then callbacks L @ [ReleaseCb] else []) \<and>
   KEY (reloadGoogleMaps GoogleMapsLoader_release cfg L) =
     (if js_get cfg ''api_key'' = Null \<or> js_get cfg ''api_key'' = Undefined
      then (if loading L then KEY L else Null)
      else js_get cfg ''api_key'')"
  by (simp add: reloadGoogleMaps_def GoogleMapsLoader_release_def release_now_def loading_def
      Let_def)

theorem reloadGoogleMaps_configures_witness:
  "KEY (reloadGoogleMaps GoogleMapsLoader_release [''api_key'' \<mapsto> Str ''k1'']
      \<lparr>google = True, callbacks = [], LIBRARIES = [], KEY = Str ''abc''\<rparr>) = Str ''k1'' \<and>
   KEY (reloadGoogleMaps GoogleMapsLoader_release [''api_key'' \<mapsto> Null]
      \<lparr>google = True, callbacks = [], LIBRARIES = [], KEY = Str ''abc''\<rparr>) = Null \<and>
   KEY (reloadGoogleMaps GoogleMapsLoader_release Map.empty
      \<lparr>google = False, callbacks = [MapLoad], LIBRARIES = [], KEY = Str ''abc''\<rparr>)
     = Str ''abc'' \<and>
   LIBRARIES (reloadGoogleMaps GoogleMapsLoader_release Map.empty
      \<lparr>google = True, callbacks = [], LIBRARIES = [], KEY = Str ''abc''\<rparr>) = [''visualization'']"
  using reloadGoogleMaps_configures [of "[''api_key'' \<mapsto> Str ''k1'']"
      "\<lparr>google = True, callbacks = [], LIBRARIES = [], KEY = Str ''abc''\<rparr>"]
    reloadGoogleMaps_configures [of "[''api_key'' \<mapsto> Null]"
      "\<lparr>google = True, callbacks = [], LIBRARIES = [], KEY = Str ''abc''\<rparr>"]
    reloadGoogleMaps_configures [of Map.empty
      "\<lparr>google = False, callbacks = [MapLoad], LIBRARIES = [], KEY = Str ''abc''\<rparr>"]
    reloadGoogleMaps_configures [of Map.empty
      "\<lparr>google = True, callbacks = [], LIBRARIES = [], KEY = Str ''abc''\<rparr>"]
  by (simp add: js_get_def loading_def)

text \<open>
  A loader with the library loaded and the key \<open>"abc"\<close>, configured with an object that
  has no \<open>api_key\<close>: the key is not left as it was, it is null afterwards.
\<close>

theorem key_reset_counterexample:
  "js_get Map.empty ''api_key'' = Undefined \<and>
   KEY \<lparr>google = True, callbacks = [], LIBRARIES = [''visualization''], KEY = Str ''abc''\<rparr>
     = Str ''abc'' \<and>
   KEY (reloadGoogleMaps GoogleMapsLoader_release Map.empty
      \<lparr>google = True, callbacks = [], LIBRARIES = [''visualization''], KEY = Str ''abc''\<rparr>)
     = Null"
  by (simp add: reloadGoogleMaps_def GoogleMapsLoader_release_def release_now_def loading_def
      js_get_def Let_def)

section \<open>The routing request\<close>

lemma directions_request_empty: "directions_request [] = Inl TypeError"
  by (simp add: directions_request_def getOrigin_def destructure_pair_def first_u_def js_index_def)

lemma directions_request_nonempty:
  assumes "ds \<noteq> []"
  shows "directions_request ds =
     Inr \<lparr>origin = to_LatLng (hd ds), destination = to_LatLng (last ds),
          waypoints = map (\<lambda>e. Waypoint (to_LatLng e)) (butlast (tl ds)), travelMode = DRIVING\<rparr>"
proof -
  have f: "first_u ds = Some (hd ds)"
    using assms by (cases ds) (simp_all add: first_u_def js_index_def)
  have l: "last_u ds = Some (last ds)"
    using assms by (simp add: last_u_def js_index_def last_conv_nth)
  have w: "getWaypoints ds = map (\<lambda>e. Waypoint (to_LatLng e)) (butlast (tl ds))"
    by (simp add: getWaypoints_def tail_u_def initial_u_def to_LatLng_def butlast_conv_take drop_Suc)
  show ?thesis
    by (simp add: directions_request_def getOrigin_def getDestination_def f l w
        destructure_pair_def to_LatLng_def)
qed

lemma ends_and_middle:
  assumes "2 \<le> length ds"
  shows "hd ds # butlast (tl ds) @ [last ds] = ds"
proof (cases ds)
  case Nil
  with assms show ?thesis by simp
next
  case (Cons x xs)
  with assms have "xs \<noteq> []" by auto
  then show ?thesis by (simp add: Cons)
qed

lemma middle_as_take_drop: "butlast (tl ds) = take (length ds - 2) (drop 1 ds)"
proof -
  have "length (tl ds) - 1 = length ds - 2" by simp
  then show ?thesis by (simp add: butlast_conv_take drop_Suc)
qed

text \<open>
  C10: for a data list of at least two elements the request has the first element as
  origin, the last as destination and the elements between them, in order, as waypoints,
  so that the points of the request are exactly the data list; a data list of fewer than
  two elements has no request whose points are the data list, and on the empty list the
  construction of the request throws.
\<close>

theorem directions_request_partition:
  "(2 \<le> length ds \<longrightarrow>
      (\<exists>r. directions_request ds = Inr r \<and>
           origin r = to_LatLng (ds ! 0) \<and>
           destination r = to_LatLng (ds ! (length ds - 1)) \<and>
           map location (waypoints r) = map to_LatLng (take (length ds - 2) (drop 1 ds)) \<and>
           request_points r = map to_LatLng ds)) \<and>
   (length ds < 2 \<longrightarrow>
      \<not> (\<exists>r. directions_request ds = Inr r \<and> request_points r = map to_LatLng ds)) \<and>
   directions_request [] = Inl TypeError"
proof (intro conjI impI)
  assume len: "2 \<le> length ds"
  then have ne: "ds \<noteq> []" by auto
  have "map to_LatLng (hd ds # butlast (tl ds) @ [last ds]) = map to_LatLng ds"
    using ends_and_middle [OF len] by simp
  then show "\<exists>r. directions_request ds = Inr r \<and>
           origin r = to_LatLng (ds ! 0) \<and>
           destination r = to_LatLng (ds ! (length ds - 1)) \<and>
           map location (waypoints r) = map to_LatLng (take (length ds - 2) (drop 1 ds)) \<and>
           request_points r = map to_LatLng ds"
    using ne by (simp add: directions_request_nonempty request_points_def hd_conv_nth
        last_conv_nth middle_as_take_drop comp_def)
next
  assume len: "length ds < 2"
  show "\<not> (\<exists>r. directions_request ds = Inr r \<and> request_points r = map to_LatLng ds)"
  proof
    assume "\<exists>r. directions_request ds = Inr r \<and> request_points r = map to_LatLng ds"
    then obtain r where p: "request_points r = map to_LatLng ds" by blast
    have "2 \<le> length (request_points r)" by (simp add: request_points_def)
    then show False using p len by simp
  qed
next
  show "directions_request [] = Inl TypeError" by (rule directions_request_empty)
qed

theorem directions_request_partition_witness:
  "(\<exists>r. directions_request [[1, 2], [3, 4], [5, 6]] = Inr r \<and>
        origin r = LatLng (Some 1) (Some 2) \<and>
        destination r = LatLng (Some 5) (Some 6) \<and>
        map location (waypoints r) = [LatLng (Some 3) (Some 4)]) \<and>
   \<not> (\<exists>r. directions_request [[1, 2]] = Inr r \<and>
          request_points r = map to_LatLng [[1, 2]])"
  using directions_request_partition [of "[[1, 2], [3, 4], [5, 6]]"]
    directions_request_partition [of "[[1, 2]]"]
  by (auto simp add: to_LatLng_def js_index_def)

section \<open>Defaults and rendering of the map\<close>

text \<open>
  C9: the defaults of the map model give the width \<open>"600px"\<close> and the height \<open>"400px"\<close>,
  whatever the framework's defaults are, and \<open>render\<close> of the map view writes the model's
  width and height into the style of the view's element.
\<close>

theorem PlainmapModel_defaults_and_render:
  "width (PlainmapModel_defaults parent) = Str ''600px'' \<and>
   height (PlainmapModel_defaults parent) = Str ''400px'' \<and>
   el_style (mapView (PlainmapView_render release w)) ''width'' = Some (width (mapModel w)) \<and>
   el_style (mapView (PlainmapView_render release w)) ''height'' = Some (height (mapModel w))"
  by (simp add: PlainmapModel_defaults_def PlainmapView_render_def Let_def
      PlainmapView_modelEvents_def loadConfiguration_def)

theorem PlainmapModel_defaults_and_render_witness:
  "el_style (mapView (PlainmapView_render GoogleMapsLoader_release
      (example_page\<lparr>mapModel := PlainmapModel_defaults (mapModel example_page)\<rparr>))) ''width''
     = Some (Str ''600px'') \<and>
   el_style (mapView (PlainmapView_render GoogleMapsLoader_release
      (example_page\<lparr>mapModel := PlainmapModel_defaults (mapModel example_page)\<rparr>))) ''height''
     = Some (Str ''400px'')"
  using PlainmapModel_defaults_and_render [of "mapModel example_page" GoogleMapsLoader_release
      "example_page\<lparr>mapModel := PlainmapModel_defaults (mapModel example_page)\<rparr>"]
  by simp

section \<open>The status of a directions layer\<close>



section \<open>Partial updates of a heatmap\<close>

lemma handler_call_log [simp]: "handler_call (log_call c w) h = handler_call w h"
  by (cases h) (simp_all add: handler_call_def log_call_def)








section \<open>Re-fitting the viewport\<close>





section \<open>Adding a layer\<close>


lemma view_class_cases:
  obtains "exported_view n = None"
  | "exported_view n = Some DirectionsLayerView"
  | c where "exported_view n = Some c" and "c \<noteq> DirectionsLayerView"
  by (cases "exported_view n") auto















text \<open>
  C2: on the example page the configuration is loaded once more after the library had
  loaded and the creation of the layer views was queued (\<open>released_page\<close>). The creation
  jobs then run with the library handle absent: \<open>render\<close> of the heatmap view 14 only
  leaves its callback with the loader and returns, so the promise of \<open>create_child_view\<close>
  is decided and the continuation of \<open>addLayerModel\<close> is the next job while the view has
  no primitive. The continuation calls \<open>addToMapView\<close> on the view and throws; the same
  happens to the heatmap view 16. Both promises are rejected and no layer is ever put on
  the map.
\<close>

theorem addToMapView_before_primitive:
  "tasks (run_tasks 1 released_page) = [ThenTask 11 14, CreateTask 12 2, CreateTask 13 3] \<and>
   cls (views (run_tasks 1 released_page) 14) = SimpleHeatmapLayerView \<and>
   heatmap (views (run_tasks 1 released_page) 14) = None \<and>
   callbacks (GoogleMapsLoader (run_tasks 1 released_page)) = [HeatmapLoad 14] \<and>
   fst (addLayerModel_then 14 (run_tasks 1 released_page)) = Inl TypeError \<and>
   tasks failed_page = [] \<and>
   promises failed_page 11 = Rejected TypeError \<and>
   promises failed_page 13 = Rejected TypeError \<and>
   attached_layers failed_page (trace failed_page) = []"
  unfolding stalled_page_eq failed_page_eq
  by (simp add: loaded_page_eq step_defs attached_layers_def List.map_filter_simps)

section \<open>Reconciling the layer views\<close>






lemma common_prefix_take: "take (common_prefix xs ys) xs = take (common_prefix xs ys) ys"
  by (induction xs ys rule: common_prefix.induct) simp_all

lemma common_prefix_same: "common_prefix xs xs = length xs"
  by (induction xs) simp_all

lemma add_views_summary:
  "map fst (fst (add_views ms w)) = ms \<and>
   map snd (fst (add_views ms w)) = [fresh w ..< fresh w + length ms] \<and>
   tasks (snd (add_views ms w)) =
     tasks w @ map (\<lambda>e. CreateTask (snd e) (fst e)) (fst (add_views ms w)) \<and>
   (\<forall>q. promises (snd (add_views ms w)) q =
      (if fresh w \<le> q \<and> q < fresh w + length ms then Pending else promises w q)) \<and>
   fresh (snd (add_views ms w)) = fresh w + length ms \<and>
   trace (snd (add_views ms w)) = trace w \<and>
   GoogleMapsLoader (snd (add_views ms w)) = GoogleMapsLoader w \<and>
   mapView (snd (add_views ms w)) = mapView w \<and>
   models (snd (add_views ms w)) = models w \<and>
   views (snd (add_views ms w)) = views w"
proof (induction ms arbitrary: w)
  case Nil
  show ?case by auto
next
  case (Cons m ms)
  let ?w1 = "snd (addLayerModel m w)"
  have w1: "addLayerModel m w =
     (fresh w, w\<lparr>promises := (promises w)(fresh w := Pending),
                 tasks := tasks w @ [CreateTask (fresh w) m], fresh := Suc (fresh w)\<rparr>)"
    by (simp add: addLayerModel_def create_child_view_def new_ref_def enqueue_def settle_def)
  have u: "[fresh w ..< fresh w + length (m # ms)] =
      fresh w # [Suc (fresh w) ..< Suc (fresh w) + length ms]"
    by (simp add: upt_conv_Cons del: upt_Suc)
  have f1: "fresh ?w1 = Suc (fresh w)" "tasks ?w1 = tasks w @ [CreateTask (fresh w) m]"
    "promises ?w1 = (promises w)(fresh w := Pending)" "trace ?w1 = trace w"
    "GoogleMapsLoader ?w1 = GoogleMapsLoader w" "mapView ?w1 = mapView w"
    "models ?w1 = models w" "views ?w1 = views w"
    by (simp_all add: w1)
  have e: "add_views (m # ms) w =
      ((m, fresh w) # fst (add_views ms ?w1), snd (add_views ms ?w1))"
    by (simp add: w1 split_beta)
  note ih = Cons.IH [of ?w1, unfolded f1]
  show ?case
    unfolding e fst_conv snd_conv u
    using ih by auto
qed







lemma ViewList_update_again:
  assumes "layerViews (mapView w) = Some es" and "map fst es = ms"
  shows "ViewList_update ms w = (Inr (), w)"
proof -
  have len: "length es = length ms" using assms(2) by (metis length_map)
  have same: "w\<lparr>mapView := (mapView w)\<lparr>layerViews := Some es\<rparr>\<rparr> = w"
    using assms(1) by simp
  show ?thesis
    by (simp add: ViewList_update_def assms common_prefix_same len Let_def same)
qed

text \<open>
  C5: a second reconciliation with the same sequence changes nothing: it makes no call (no
  view is constructed, none is destroyed), it queues no job, and the synchronizer holds
  the same views.
\<close>

theorem reconcile_idempotent:
  "ViewList_update ms (snd (ViewList_update ms w)) = ViewList_update ms w \<and>
   new_calls (snd (ViewList_update ms w)) (snd (ViewList_update ms (snd (ViewList_update ms w)))) = [] \<and>
   layerViews (mapView (snd (ViewList_update ms (snd (ViewList_update ms w))))) =
     layerViews (mapView (snd (ViewList_update ms w)))"
proof (cases "layerViews (mapView w)")
  case None
  then show ?thesis by (simp add: ViewList_update_def new_calls_def)
next
  case (Some es)
  let ?p = "common_prefix (map fst es) ms"
  let ?w1 = "fold remove_entry (drop ?p es) w"
  let ?a = "add_views (drop ?p ms) ?w1"
  let ?es' = "take ?p es @ fst ?a"
  let ?w3 = "(snd ?a)\<lparr>mapView := (mapView (snd ?a))\<lparr>layerViews := Some ?es'\<rparr>\<rparr>"
  have upd: "ViewList_update ms w = (Inr (), ?w3)"
    using Some by (simp add: ViewList_update_def Let_def split_beta)
  have "map fst ?es' = take ?p (map fst es) @ drop ?p ms"
    using add_views_summary [of "drop ?p ms" ?w1] by (simp add: take_map)
  also have "\<dots> = ms"
    by (simp add: common_prefix_take)
  finally have keys: "map fst ?es' = ms" .
  have "ViewList_update ms ?w3 = (Inr (), ?w3)"
    by (rule ViewList_update_again [OF _ keys]) simp
  then show ?thesis by (simp add: upd new_calls_def)
qed

theorem reconcile_idempotent_witness:
  "tasks (snd (ViewList_update [1, 3] shown_page))
     = [RemoveTask 16, RemoveTask 18, CreateTask 20 3] \<and>
   tasks (snd (ViewList_update [1, 3] (snd (ViewList_update [1, 3] shown_page))))
     = [RemoveTask 16, RemoveTask 18, CreateTask 20 3] \<and>
   new_calls (snd (ViewList_update [1, 3] shown_page))
     (snd (ViewList_update [1, 3] (snd (ViewList_update [1, 3] shown_page)))) = []"
proof -
  have "tasks (snd (ViewList_update [1, 3] shown_page))
     = [RemoveTask 16, RemoveTask 18, CreateTask 20 3]"
    by (simp add: shown_page_eq ViewList_update_def remove_entry_def addLayerModel_def
        create_child_view_def new_ref_def settle_def enqueue_def Let_def)
  then show ?thesis
    using reconcile_idempotent [of "[1, 3]" shown_page] by (simp add: new_calls_def)
qed

section \<open>Completion handlers of destroyed views\<close>

text \<open>
  C8 (as amended): no completion handler looks at the teardown of its view. When the view
  has been destroyed before the handler runs, the routing callback still stores the status
  in the model's \<open>layer_status\<close> and pushes it, and on \<open>"OK"\<close>, the library being
  present, it assigns \<open>this.response\<close>; the load callback of a heatmap view, which the
  loader runs with the library present, still constructs the primitive and stores it in
  the view.
\<close>

theorem handlers_ignore_teardown:
  "(removed (views w v) \<longrightarrow>
      layer_status (models (snd (route_callback v resp s w)) (model (views w v))) = Str s \<and>
      Touch v \<in> set (new_calls w (snd (route_callback v resp s w))) \<and>
      (s = ''OK'' \<and> google (GoogleMapsLoader w) \<longrightarrow>
         response (views (snd (route_callback v resp s w)) v) = directionsDisplay (views w v))) \<and>
   (removed (views w v) \<and> cls (views w v) \<noteq> DirectionsLayerView \<and> google (GoogleMapsLoader w)
      \<longrightarrow>
      fst (heatmap_load_callback v w) = Inr () \<and>
      heatmap (views (snd (heatmap_load_callback v w)) v) = Some (fresh w) \<and>
      (\<exists>d r i. new_calls w (snd (heatmap_load_callback v w)) = [NewHeatmapLayer v (fresh w) d r i]))"
proof (intro conjI impI)
  show "layer_status (models (snd (route_callback v resp s w)) (model (views w v))) = Str s"
    by (simp add: route_callback_def Let_def log_call_def upd_model_def upd_view_def
        split: option.splits)
  show "Touch v \<in> set (new_calls w (snd (route_callback v resp s w)))"
    by (simp add: route_callback_def Let_def log_call_def upd_model_def upd_view_def
        new_calls_def split: option.splits)
  show "response (views (snd (route_callback v resp s w)) v) = directionsDisplay (views w v)"
    if "s = ''OK'' \<and> google (GoogleMapsLoader w)"
    using that
    by (simp add: route_callback_def Let_def log_call_def upd_model_def upd_view_def
        DirectionsStatus_OK_def split: option.splits)
next
  assume a: "removed (views w v) \<and> cls (views w v) \<noteq> DirectionsLayerView \<and>
    google (GoogleMapsLoader w)"
  then have c: "cls (views w v) = SimpleHeatmapLayerView \<or> cls (views w v) = WeightedHeatmapLayerView"
    by (cases "cls (views w v)") simp_all
  have l: "google (GoogleMapsLoader w)" using a by simp
  show "fst (heatmap_load_callback v w) = Inr ()"
    using c l by (auto simp add: heatmap_load_callback_def view_getData_def Let_def new_ref_def)
  show "heatmap (views (snd (heatmap_load_callback v w)) v) = Some (fresh w)"
    using c l by (auto simp add: heatmap_load_callback_def view_getData_def Let_def new_ref_def
        upd_view_def log_call_def)
  show "\<exists>d r i. new_calls w (snd (heatmap_load_callback v w)) = [NewHeatmapLayer v (fresh w) d r i]"
    using c l by (auto simp add: heatmap_load_callback_def view_getData_def Let_def new_ref_def
        upd_view_def log_call_def new_calls_def)
qed

theorem handlers_ignore_teardown_witness:
  "removed (views torn_page 16) \<and> google (GoogleMapsLoader torn_page) \<and>
   layer_status (models (snd (route_callback 16 7 ''OK'' torn_page)) 2) = Str ''OK'' \<and>
   Touch 16 \<in> set (new_calls torn_page (snd (route_callback 16 7 ''OK'' torn_page))) \<and>
   response (views (snd (route_callback 16 7 ''OK'' torn_page)) 16) = Some 17 \<and>
   removed (views torn_page 18) \<and>
   heatmap (views (snd (heatmap_load_callback 18 torn_page)) 18) = Some 23"
proof -
  have r: "removed (views torn_page 16)" by (simp add: torn_page_eq)
  have l: "google (GoogleMapsLoader torn_page)" by (simp add: torn_page_eq shown_page_eq)
  have m: "model (views torn_page 16) = 2" by (simp add: torn_page_eq shown_page_eq)
  have d: "directionsDisplay (views torn_page 16) = Some 17"
    by (simp add: torn_page_eq shown_page_eq)
  have r2: "removed (views torn_page 18)" by (simp add: torn_page_eq)
  have c2: "cls (views torn_page 18) \<noteq> DirectionsLayerView"
    by (simp add: torn_page_eq shown_page_eq)
  have f: "fresh torn_page = 23" by (simp add: torn_page_eq)
  show ?thesis
    using handlers_ignore_teardown [of torn_page 16 7 "''OK''"]
      handlers_ignore_teardown [of torn_page 18 7 "''OK''"] r l m d r2 c2 f
    by simp
qed

text \<open>
  On the example page the view of the directions layer is destroyed while its request is
  under way; the callback then changes \<open>layer_status\<close> of the model from undefined to the
  status.
\<close>

theorem liveness_guard_counterexample:
  "removed (views torn_page 16) \<and>
   layer_status (models torn_page 2) = Undefined \<and>
   layer_status (models (snd (route_callback 16 7 ''ZERO_RESULTS'' torn_page)) 2)
     = Str ''ZERO_RESULTS'' \<and>
   new_calls torn_page (snd (route_callback 16 7 ''ZERO_RESULTS'' torn_page))
     = [ConsoleLog ''Direction service returned: ZERO_RESULTS'', Touch 16]"
  by (simp add: torn_page_eq shown_page_eq example_page_def example_models_def
      route_callback_def DirectionsStatus_OK_def log_call_def upd_model_def upd_view_def
      new_calls_def Let_def)

end
